theory Spec2Isabelle
  imports Main "HOL-Library.Word"
begin

section \<open>The OS/2 graphics platform layer (gfxOS2Platform.cpp)\<close>

text \<open>
  A shallow embedding of \<^verbatim>\<open>gfx/thebes/gfxOS2Platform.cpp\<close>: the choice of the
  off-screen surface backend (\<^verbatim>\<open>CreateOffscreenSurface\<close>), the refresh of the font
  list (\<^verbatim>\<open>UpdateFontList\<close>) and the system-wide font search for one character
  (\<^verbatim>\<open>FindFontForChar\<close>) with its set of codepoints known to have no font.

  The collaborators the file calls (fontconfig utilities, the font instance cache, cairo's
  face locking, FreeType's charmap lookup, cairo's stride function) are parameters of the
  model. Every call to one of them is appended to a log kept in the platform state, so
  that "no catalog call" and "lock released" are statements about that log.
\<close>

subsection \<open>Values\<close>

type_synonym codepoint = "32 word"  \<comment> \<open>\<^verbatim>\<open>uint32_t aCh\<close>\<close>
type_synonym FT_UInt = "32 word"    \<comment> \<open>a glyph id, 0 is "no glyph"\<close>

text \<open>
  Modelled from the spec: the collaborators answer "success | error"; the \<^verbatim>\<open>nsresult\<close>
  type and the \<^verbatim>\<open>NS_SUCCEEDED\<close> macro are declared outside this file.
\<close>

datatype nsresult = NS_OK | NS_ERROR nat

fun NS_SUCCEEDED :: "nsresult \<Rightarrow> bool" where
  "NS_SUCCEEDED NS_OK = True"
| "NS_SUCCEEDED (NS_ERROR code) = False"

record gfxFontStyle =
  language :: string
  weight :: nat
  pt_size :: nat

record gfxOS2Font =
  font_name :: string
  GetStyle :: gfxFontStyle

text \<open>
  A FreeType face as this file sees it: \<^verbatim>\<open>face->charmap\<close> is either null or the
  active table from codepoints to glyph ids.
\<close>

record FT_Face =
  charmap :: "(codepoint \<Rightarrow> FT_UInt) option"

definition FT_Get_Char_Index :: "FT_Face \<Rightarrow> codepoint \<Rightarrow> FT_UInt" where
  "FT_Get_Char_Index face aCh = (case charmap face of None \<Rightarrow> 0 | Some cm \<Rightarrow> cm aCh)"

subsection \<open>The set of codepoints with no fonts\<close>

text \<open>
  Modelled from the spec: the type of \<^verbatim>\<open>mCodepointsWithNoFonts\<close> is declared outside
  this file. It is a bit array indexed by codepoint with \<^verbatim>\<open>test\<close>, \<^verbatim>\<open>set\<close>,
  \<^verbatim>\<open>reset\<close> (clear all bits) and \<^verbatim>\<open>SetRange\<close> (set the bits of an inclusive
  range); a freshly created one has no bit set.
\<close>

type_synonym bitset = "codepoint \<Rightarrow> bool"

definition bs_empty :: bitset where
  "bs_empty = (\<lambda>c. False)"

definition bs_test :: "bitset \<Rightarrow> codepoint \<Rightarrow> bool" where
  "bs_test b c = b c"

definition bs_set :: "bitset \<Rightarrow> codepoint \<Rightarrow> bitset" where
  "bs_set b c = b(c := True)"

definition bs_reset :: "bitset \<Rightarrow> bitset" where
  "bs_reset b = bs_empty"

definition bs_SetRange :: "bitset \<Rightarrow> codepoint \<Rightarrow> codepoint \<Rightarrow> bitset" where
  "bs_SetRange b aStart aEnd = (\<lambda>c. if aStart \<le> c \<and> c \<le> aEnd then True else b c)"

subsection \<open>Collaborators and platform state\<close>

text \<open>One entry of the call log for each call made to a collaborator.\<close>

datatype event =
    E_GetFontList string string          \<comment> \<open>language, generic family\<close>
  | E_UpdateFontList
  | E_GetOrMakeFont string gfxFontStyle  \<comment> \<open>family name, style\<close>
  | E_lock_face gfxOS2Font bool          \<comment> \<open>the flag: a face was returned, the lock is held\<close>
  | E_unlock_face gfxOS2Font

record collab =
  fc_GetFontList :: "string \<Rightarrow> string \<Rightarrow> nsresult \<times> string list"
  fc_UpdateFontList :: nsresult
  GetOrMakeFont :: "string \<Rightarrow> gfxFontStyle \<Rightarrow> gfxOS2Font option"
  cairo_ft_scaled_font_lock_face :: "gfxOS2Font \<Rightarrow> FT_Face option"

record platform =
  mCodepointsWithNoFonts :: bitset
  calls :: "event list"

definition log_call :: "event \<Rightarrow> platform \<Rightarrow> platform" where
  "log_call e st = st\<lparr>calls := calls st @ [e]\<rparr>"

text \<open>
  The face locks a log leaves held on a font: successful \<^verbatim>\<open>lock_face\<close> calls minus
  \<^verbatim>\<open>unlock_face\<close> calls.
\<close>

fun lock_delta :: "gfxOS2Font \<Rightarrow> event \<Rightarrow> int" where
  "lock_delta f (E_lock_face g ok) = (if g = f \<and> ok then 1 else 0)"
| "lock_delta f (E_unlock_face g) = (if g = f then - 1 else 0)"
| "lock_delta f e = 0"

fun locks_held :: "event list \<Rightarrow> gfxOS2Font \<Rightarrow> int" where
  "locks_held [] f = 0"
| "locks_held (e # es) f = lock_delta f e + locks_held es f"

subsection \<open>The constructor\<close>

text \<open>
  The constructor initialises cairo and fetches the fontconfig utilities; it does not
  touch \<^verbatim>\<open>mCodepointsWithNoFonts\<close>, which is therefore as freshly created.
\<close>

definition gfxOS2Platform_new :: platform where
  "gfxOS2Platform_new = \<lparr>mCodepointsWithNoFonts = bs_empty, calls = []\<rparr>"

subsection \<open>CreateOffscreenSurface\<close>


datatype gfxImageFormat =
  ImageFormatARGB32 | ImageFormatRGB24 | ImageFormatA8 | ImageFormatA1 | ImageFormatUnknown






subsection \<open>GetFontList and UpdateFontList\<close>

definition GetFontList ::
  "collab \<Rightarrow> string \<Rightarrow> string \<Rightarrow> platform \<Rightarrow> (nsresult \<times> string list) \<times> platform" where
  "GetFontList env aLangGroup aGenericFamily st =
     (fc_GetFontList env aLangGroup aGenericFamily,
      log_call (E_GetFontList aLangGroup aGenericFamily) st)"

definition UpdateFontList :: "collab \<Rightarrow> platform \<Rightarrow> nsresult \<times> platform" where
  "UpdateFontList env st =
     (let st1 = st\<lparr>mCodepointsWithNoFonts := bs_reset (mCodepointsWithNoFonts st)\<rparr>;
          rv = fc_UpdateFontList env;
          st2 = log_call E_UpdateFontList st1;
          st3 = st2\<lparr>mCodepointsWithNoFonts := bs_SetRange (mCodepointsWithNoFonts st2) 0 0x1f\<rparr>;
          st4 = st3\<lparr>mCodepointsWithNoFonts := bs_SetRange (mCodepointsWithNoFonts st3) 0x7f 0x9f\<rparr>
      in (rv, st4))"

subsection \<open>FindFontForChar\<close>

text \<open>
  The body of the loop \<^verbatim>\<open>for (i = 3; i < fontList.Length(); i++)\<close>, run over the
  entries from index 3 on. Each \<^verbatim>\<open>continue\<close> is the recursive call on the rest.
  Where the glyph id is 0 the source reaches the end of the loop body with no call to
  \<^verbatim>\<open>cairo_ft_scaled_font_unlock_face\<close>.
\<close>

fun search_fonts ::
  "collab \<Rightarrow> codepoint \<Rightarrow> gfxOS2Font \<Rightarrow> string list \<Rightarrow> platform \<Rightarrow> gfxOS2Font option \<times> platform" where
  "search_fonts env aCh aFont [] st = (None, st)"
| "search_fonts env aCh aFont (name # rest) st =
     (let st1 = log_call (E_GetOrMakeFont name (GetStyle aFont)) st in
      case GetOrMakeFont env name (GetStyle aFont) of
        None \<Rightarrow> search_fonts env aCh aFont rest st1
      | Some font \<Rightarrow>
          (case cairo_ft_scaled_font_lock_face env font of
             None \<Rightarrow> search_fonts env aCh aFont rest (log_call (E_lock_face font False) st1)
           | Some face \<Rightarrow>
               (let st2 = log_call (E_lock_face font True) st1 in
                case charmap face of
                  None \<Rightarrow> search_fonts env aCh aFont rest (log_call (E_unlock_face font) st2)
                | Some cm \<Rightarrow>
                    if FT_Get_Char_Index face aCh \<noteq> 0
                    then (Some font, log_call (E_unlock_face font) st2)
                    else search_fonts env aCh aFont rest st2)))"

definition FindFontForChar ::
  "collab \<Rightarrow> codepoint \<Rightarrow> gfxOS2Font \<Rightarrow> platform \<Rightarrow> gfxOS2Font option \<times> platform" where
  "FindFontForChar env aCh aFont st =
     (if bs_test (mCodepointsWithNoFonts st) aCh then (None, st)
      else
        (case GetFontList env (language (GetStyle aFont)) [] st of
           ((rv, fontList), st1) \<Rightarrow>
             (case (if NS_SUCCEEDED rv then search_fonts env aCh aFont (drop 3 fontList) st1
                    else (None, st1)) of
                (Some font, st2) \<Rightarrow> (Some font, st2)
              | (None, st2) \<Rightarrow>
                  (None, st2\<lparr>mCodepointsWithNoFonts := bs_set (mCodepointsWithNoFonts st2) aCh\<rparr>))))"

section \<open>Reference definitions and stub collaborators\<close>

text \<open>
  The coverage test of one candidate family, in the spec's words: an instance can be
  obtained, its face can be locked, the face has a charmap, and the charmap maps the
  codepoint to a nonzero glyph id.
\<close>

definition covers :: "collab \<Rightarrow> codepoint \<Rightarrow> gfxFontStyle \<Rightarrow> string \<Rightarrow> bool" where
  "covers env aCh style name =
     (case GetOrMakeFont env name style of
        None \<Rightarrow> False
      | Some font \<Rightarrow>
          (case cairo_ft_scaled_font_lock_face env font of
             None \<Rightarrow> False
           | Some face \<Rightarrow>
               (case charmap face of
                  None \<Rightarrow> False
                | Some cm \<Rightarrow> cm aCh \<noteq> 0)))"

text \<open>A sequence of \<^verbatim>\<open>FindFontForChar\<close> calls, each with its own collaborators.\<close>

fun FindFontForChar_seq :: "(collab \<times> codepoint \<times> gfxOS2Font) list \<Rightarrow> platform \<Rightarrow> platform" where
  "FindFontForChar_seq [] st = st"
| "FindFontForChar_seq ((env, aCh, aFont) # cs) st =
     FindFontForChar_seq cs (snd (FindFontForChar env aCh aFont st))"

text \<open>The control codepoints: C0 controls and C1 controls (with DEL).\<close>

definition is_control :: "codepoint \<Rightarrow> bool" where
  "is_control c = (c \<le> 0x1f \<or> (0x7f \<le> c \<and> c \<le> 0x9f))"

text \<open>
  Stub collaborators for concrete runs. The catalog lists three generic entries, then
  Symbol (a face whose charmap has no glyph for any codepoint) and Arial (glyph 36 for
  U+0041, nothing else).
\<close>

definition refStyle :: gfxFontStyle where
  "refStyle = \<lparr>language = ''en'', weight = 400, pt_size = 12\<rparr>"

definition refFont :: gfxOS2Font where
  "refFont = \<lparr>font_name = ''Helv'', GetStyle = refStyle\<rparr>"

definition arialFont :: gfxOS2Font where
  "arialFont = \<lparr>font_name = ''Arial'', GetStyle = refStyle\<rparr>"

definition symbolFont :: gfxOS2Font where
  "symbolFont = \<lparr>font_name = ''Symbol'', GetStyle = refStyle\<rparr>"

definition latin_face :: FT_Face where
  "latin_face = \<lparr>charmap = Some (\<lambda>c. if c = 0x41 then 36 else 0)\<rparr>"

definition blank_face :: FT_Face where
  "blank_face = \<lparr>charmap = Some (\<lambda>c. 0)\<rparr>"

definition stub_env :: collab where
  "stub_env =
     \<lparr>fc_GetFontList =
        (\<lambda>lang generic. (NS_OK, [''serif'', ''sans-serif'', ''monospace'', ''Symbol'', ''Arial''])),
      fc_UpdateFontList = NS_OK,
      GetOrMakeFont =
        (\<lambda>name style.
           if name = ''Arial'' \<or> name = ''Symbol''
           then Some \<lparr>font_name = name, GetStyle = style\<rparr> else None),
      cairo_ft_scaled_font_lock_face =
        (\<lambda>font.
           if font_name font = ''Arial'' then Some latin_face
           else if font_name font = ''Symbol'' then Some blank_face
           else None)\<rparr>"

definition failing_env :: collab where
  "failing_env =
     stub_env\<lparr>fc_GetFontList := (\<lambda>lang generic. (NS_ERROR 1, [])),
              fc_UpdateFontList := NS_ERROR 1\<rparr>"

definition generic_only_env :: collab where
  "generic_only_env =
     stub_env\<lparr>fc_GetFontList := (\<lambda>lang generic. (NS_OK, [''serif'', ''sans-serif'', ''monospace'']))\<rparr>"

text \<open>The platform after one failed search for U+0041: its bit is set.\<close>

definition miss_A_state :: platform where
  "miss_A_state = snd (FindFontForChar generic_only_env 0x41 refFont gfxOS2Platform_new)"



section \<open>Lemmas on the model\<close>


lemma bs_test_set: "bs_test (bs_set b c) d = (d = c \<or> bs_test b d)"
  by (simp add: bs_test_def bs_set_def)

lemma search_fonts_cache:
  "mCodepointsWithNoFonts (snd (search_fonts env aCh aFont names st)) = mCodepointsWithNoFonts st"
  by (induction names arbitrary: st) (simp_all add: log_call_def Let_def split: option.splits)

lemma search_fonts_result:
  "fst (search_fonts env aCh aFont names st) =
     (case find (covers env aCh (GetStyle aFont)) names of
        None \<Rightarrow> None
      | Some name \<Rightarrow> GetOrMakeFont env name (GetStyle aFont))"
  by (induction names arbitrary: st)
     (simp_all add: covers_def FT_Get_Char_Index_def Let_def split: option.splits)

lemma UpdateFontList_cache:
  "bs_test (mCodepointsWithNoFonts (snd (UpdateFontList env st))) c = is_control c"
  by (simp add: UpdateFontList_def Let_def log_call_def bs_SetRange_def bs_reset_def
      bs_empty_def bs_test_def is_control_def)

lemma FindFontForChar_cached_eq:
  "bs_test (mCodepointsWithNoFonts st) aCh \<Longrightarrow> FindFontForChar env aCh aFont st = (None, st)"
  by (simp add: FindFontForChar_def)

lemma FindFontForChar_cache_cases:
  "mCodepointsWithNoFonts (snd (FindFontForChar env aCh aFont st)) =
     (if fst (FindFontForChar env aCh aFont st) = None \<and> \<not> bs_test (mCodepointsWithNoFonts st) aCh
      then bs_set (mCodepointsWithNoFonts st) aCh
      else mCodepointsWithNoFonts st)"
proof (cases "bs_test (mCodepointsWithNoFonts st) aCh")
  case True
  then show ?thesis by (simp add: FindFontForChar_cached_eq)
next
  case False
  obtain rv fontList where gl: "fc_GetFontList env (language (GetStyle aFont)) [] = (rv, fontList)"
    by (cases "fc_GetFontList env (language (GetStyle aFont)) []")
  let ?st1 = "log_call (E_GetFontList (language (GetStyle aFont)) []) st"
  obtain r st2 where s: "search_fonts env aCh aFont (drop 3 fontList) ?st1 = (r, st2)"
    by (cases "search_fonts env aCh aFont (drop 3 fontList) ?st1")
  have c2: "mCodepointsWithNoFonts st2 = mCodepointsWithNoFonts st"
    using search_fonts_cache [of env aCh aFont "drop 3 fontList" ?st1] s
    by (simp add: log_call_def)
  show ?thesis
    using False gl s c2
    by (cases r) (simp_all add: FindFontForChar_def GetFontList_def log_call_def)
qed

lemma FindFontForChar_keeps_bits:
  "bs_test (mCodepointsWithNoFonts st) c \<Longrightarrow>
   bs_test (mCodepointsWithNoFonts (snd (FindFontForChar env aCh aFont st))) c"
  by (simp add: FindFontForChar_cache_cases bs_test_set)

lemma FindFontForChar_None_cached:
  "fst (FindFontForChar env aCh aFont st) = None \<Longrightarrow>
   bs_test (mCodepointsWithNoFonts (snd (FindFontForChar env aCh aFont st))) aCh"
  by (simp add: FindFontForChar_cache_cases bs_test_set)

lemma FindFontForChar_seq_keeps_bits:
  "bs_test (mCodepointsWithNoFonts st) c \<Longrightarrow>
   bs_test (mCodepointsWithNoFonts (FindFontForChar_seq cs st)) c"
proof (induction cs arbitrary: st)
  case Nil
  then show ?case by simp
next
  case (Cons call cs)
  obtain env aCh aFont where "call = (env, aCh, aFont)" by (cases call)
  with Cons show ?case by (simp add: FindFontForChar_keeps_bits)
qed

lemma search_fonts_calls:
  "\<exists>evs. calls (snd (search_fonts env aCh aFont names st)) = calls st @ evs \<and>
     (\<forall>name sty. E_GetOrMakeFont name sty \<in> set evs \<longrightarrow> name \<in> set names)"
proof (induction names arbitrary: st)
  case Nil
  then show ?case by simp
next
  case (Cons name rest)
  have step: "\<exists>evs. calls (snd (search_fonts env aCh aFont rest st')) = calls st @ evs \<and>
       (\<forall>n s. E_GetOrMakeFont n s \<in> set evs \<longrightarrow> n \<in> set (name # rest))"
    if "calls st' = calls st @ pre"
      and "\<forall>n s. E_GetOrMakeFont n s \<in> set pre \<longrightarrow> n = name" for st' pre
  proof -
    from Cons.IH [of st'] obtain evs where
      "calls (snd (search_fonts env aCh aFont rest st')) = calls st' @ evs"
      "\<forall>n s. E_GetOrMakeFont n s \<in> set evs \<longrightarrow> n \<in> set rest"
      by blast
    with that have "calls (snd (search_fonts env aCh aFont rest st')) = calls st @ (pre @ evs) \<and>
       (\<forall>n s. E_GetOrMakeFont n s \<in> set (pre @ evs) \<longrightarrow> n \<in> set (name # rest))"
      by auto
    then show ?thesis by blast
  qed
  let ?g = "E_GetOrMakeFont name (GetStyle aFont)"
  show ?case
  proof (cases "GetOrMakeFont env name (GetStyle aFont)")
    case None
    then show ?thesis
      using step [of "log_call ?g st" "[?g]"] by (simp add: log_call_def)
  next
    case (Some font)
    note font = this
    show ?thesis
    proof (cases "cairo_ft_scaled_font_lock_face env font")
      case None
      then show ?thesis
        using font step [of "log_call (E_lock_face font False) (log_call ?g st)"
            "[?g, E_lock_face font False]"]
        by (simp add: log_call_def)
    next
      case (Some face)
      note face = this
      show ?thesis
      proof (cases "charmap face")
        case None
        then show ?thesis
          using font face
            step [of "log_call (E_unlock_face font) (log_call (E_lock_face font True) (log_call ?g st))"
              "[?g, E_lock_face font True, E_unlock_face font]"]
          by (simp add: log_call_def)
      next
        case (Some cm)
        show ?thesis
        proof (cases "FT_Get_Char_Index face aCh \<noteq> 0")
          case True
          then show ?thesis
            using font face Some by (simp add: log_call_def)
        next
          case False
          then show ?thesis
            using font face Some
              step [of "log_call (E_lock_face font True) (log_call ?g st)"
                "[?g, E_lock_face font True]"]
            by (simp add: log_call_def)
        qed
      qed
    qed
  qed
qed

lemma FindFontForChar_result:
  assumes "\<not> bs_test (mCodepointsWithNoFonts st) aCh"
    and "fc_GetFontList env (language (GetStyle aFont)) [] = (rv, fontList)"
    and "NS_SUCCEEDED rv"
  shows "fst (FindFontForChar env aCh aFont st) =
     (case find (covers env aCh (GetStyle aFont)) (drop 3 fontList) of
        None \<Rightarrow> None
      | Some name \<Rightarrow> GetOrMakeFont env name (GetStyle aFont))"
proof -
  let ?st1 = "log_call (E_GetFontList (language (GetStyle aFont)) []) st"
  obtain r st2 where s: "search_fonts env aCh aFont (drop 3 fontList) ?st1 = (r, st2)"
    by (cases "search_fonts env aCh aFont (drop 3 fontList) ?st1")
  have "fst (FindFontForChar env aCh aFont st) = r"
    using assms s by (cases r) (simp_all add: FindFontForChar_def GetFontList_def)
  moreover have "r = fst (search_fonts env aCh aFont (drop 3 fontList) ?st1)"
    using s by simp
  ultimately show ?thesis by (simp add: search_fonts_result)
qed

lemma FindFontForChar_Some_succeeded:
  assumes "fst (FindFontForChar env aCh aFont st) = Some font"
  shows "\<not> bs_test (mCodepointsWithNoFonts st) aCh
    \<and> NS_SUCCEEDED (fst (fc_GetFontList env (language (GetStyle aFont)) []))"
proof -
  obtain rv fontList where gl: "fc_GetFontList env (language (GetStyle aFont)) [] = (rv, fontList)"
    by (cases "fc_GetFontList env (language (GetStyle aFont)) []")
  show ?thesis
    using assms gl
    by (cases "NS_SUCCEEDED rv")
       (auto simp add: FindFontForChar_def GetFontList_def split: if_splits)
qed

lemma FindFontForChar_calls:
  assumes "\<not> bs_test (mCodepointsWithNoFonts st) aCh"
  shows "\<exists>evs. calls (snd (FindFontForChar env aCh aFont st)) =
            calls st @ E_GetFontList (language (GetStyle aFont)) [] # evs \<and>
          (\<forall>name sty. E_GetOrMakeFont name sty \<in> set evs \<longrightarrow>
             name \<in> set (drop 3 (snd (fc_GetFontList env (language (GetStyle aFont)) []))))"
proof -
  obtain rv fontList where gl: "fc_GetFontList env (language (GetStyle aFont)) [] = (rv, fontList)"
    by (cases "fc_GetFontList env (language (GetStyle aFont)) []")
  let ?e = "E_GetFontList (language (GetStyle aFont)) []"
  let ?st1 = "log_call ?e st"
  show ?thesis
  proof (cases "NS_SUCCEEDED rv")
    case False
    with assms gl have "calls (snd (FindFontForChar env aCh aFont st)) = calls st @ ?e # []"
      by (simp add: FindFontForChar_def GetFontList_def log_call_def)
    then show ?thesis by (intro exI [of _ "[]"]) simp
  next
    case True
    obtain r st2 where s: "search_fonts env aCh aFont (drop 3 fontList) ?st1 = (r, st2)"
      by (cases "search_fonts env aCh aFont (drop 3 fontList) ?st1")
    from search_fonts_calls [of env aCh aFont "drop 3 fontList" ?st1] s
    obtain evs where evs: "calls st2 = calls ?st1 @ evs"
      "\<forall>name sty. E_GetOrMakeFont name sty \<in> set evs \<longrightarrow> name \<in> set (drop 3 fontList)"
      by auto
    have "calls (snd (FindFontForChar env aCh aFont st)) = calls st2"
      using assms gl True s by (cases r) (simp_all add: FindFontForChar_def GetFontList_def)
    with evs gl show ?thesis by (intro exI [of _ evs]) (simp add: log_call_def)
  qed
qed

lemma FindFontForChar_ignores_prefix:
  assumes "fc_GetFontList env (language (GetStyle aFont)) [] = (rv, fontList)"
    and "drop 3 fontList' = drop 3 fontList"
  shows "FindFontForChar (env\<lparr>fc_GetFontList := \<lambda>lang generic. (rv, fontList')\<rparr>) aCh aFont st =
         FindFontForChar env aCh aFont st"
proof -
  have "search_fonts (env\<lparr>fc_GetFontList := f\<rparr>) aCh aFont names s =
        search_fonts env aCh aFont names s" for f names s
    by (induction names arbitrary: s) (simp_all add: Let_def split: option.splits)
  with assms show ?thesis
    by (simp add: FindFontForChar_def GetFontList_def)
qed

text \<open>Unfolding sets for runs on the stub collaborators.\<close>

lemmas model_defs =
  FindFontForChar_def GetFontList_def UpdateFontList_def log_call_def Let_def
  FT_Get_Char_Index_def bs_test_def bs_set_def bs_reset_def bs_SetRange_def bs_empty_def
  gfxOS2Platform_new_def

lemmas stub_defs =
  stub_env_def failing_env_def generic_only_env_def refFont_def refStyle_def arialFont_def
  symbolFont_def latin_face_def blank_face_def

lemma miss_A_state_eq:
  "miss_A_state =
     \<lparr>mCodepointsWithNoFonts = bs_set bs_empty 0x41, calls = [E_GetFontList ''en'' []]\<rparr>"
  by (simp add: miss_A_state_def model_defs stub_defs)

lemma stub_run_eq:
  "FindFontForChar stub_env 0x41 refFont gfxOS2Platform_new =
     (Some arialFont,
      \<lparr>mCodepointsWithNoFonts = bs_empty,
       calls = [E_GetFontList ''en'' [],
                E_GetOrMakeFont ''Symbol'' refStyle, E_lock_face symbolFont True,
                E_GetOrMakeFont ''Arial'' refStyle, E_lock_face arialFont True,
                E_unlock_face arialFont]\<rparr>)"
  by (simp add: model_defs stub_defs)

section \<open>The surface backend\<close>




section \<open>The font search and its set of codepoints with no fonts\<close>

text \<open>
  C1 (as amended). For a codepoint whose bit is not set, when the catalog enumeration
  fails \<^verbatim>\<open>FindFontForChar\<close> returns null after that one catalog call, with no
  instance or face call, and it sets the bit of the codepoint: the failure skips the
  candidate loop and falls through to the statement that records the miss. Every other
  bit is as before.
\<close>

theorem FindFontForChar_catalog_failure:
  assumes "\<not> bs_test (mCodepointsWithNoFonts st) aCh"
    and "\<not> NS_SUCCEEDED (fst (fc_GetFontList env (language (GetStyle aFont)) []))"
  shows "fst (FindFontForChar env aCh aFont st) = None
    \<and> calls (snd (FindFontForChar env aCh aFont st)) =
        calls st @ [E_GetFontList (language (GetStyle aFont)) []]
    \<and> (\<forall>c. bs_test (mCodepointsWithNoFonts (snd (FindFontForChar env aCh aFont st))) c =
          (c = aCh \<or> bs_test (mCodepointsWithNoFonts st) c))"
proof -
  obtain rv fontList where gl: "fc_GetFontList env (language (GetStyle aFont)) [] = (rv, fontList)"
    by (cases "fc_GetFontList env (language (GetStyle aFont)) []")
  with assms(2) have "\<not> NS_SUCCEEDED rv" by simp
  with assms(1) gl show ?thesis
    by (simp add: FindFontForChar_def GetFontList_def log_call_def bs_test_set)
qed

theorem FindFontForChar_catalog_failure_witness:
  "\<not> bs_test (mCodepointsWithNoFonts gfxOS2Platform_new) 0x41
   \<and> \<not> NS_SUCCEEDED (fst (fc_GetFontList failing_env (language (GetStyle refFont)) []))
   \<and> fst (FindFontForChar failing_env 0x41 refFont gfxOS2Platform_new) = None
   \<and> calls (snd (FindFontForChar failing_env 0x41 refFont gfxOS2Platform_new)) =
       [E_GetFontList ''en'' []]
   \<and> bs_test (mCodepointsWithNoFonts
        (snd (FindFontForChar failing_env 0x41 refFont gfxOS2Platform_new))) 0x41
   \<and> \<not> bs_test (mCodepointsWithNoFonts
        (snd (FindFontForChar failing_env 0x41 refFont gfxOS2Platform_new))) 0x42"
proof -
  have h1: "\<not> bs_test (mCodepointsWithNoFonts gfxOS2Platform_new) 0x41"
    by (simp add: model_defs)
  have h2: "\<not> NS_SUCCEEDED (fst (fc_GetFontList failing_env (language (GetStyle refFont)) []))"
    by (simp add: stub_defs)
  have h3: "\<not> bs_test (mCodepointsWithNoFonts gfxOS2Platform_new) 0x42"
    by (simp add: model_defs)
  have l: "language (GetStyle refFont) = ''en''" "calls gfxOS2Platform_new = []"
    by (simp_all add: stub_defs model_defs)
  show ?thesis
    using FindFontForChar_catalog_failure [OF h1 h2] h1 h2 h3 l by simp
qed

text \<open>
  C1 as the spec states it (cache left unmutated on catalog failure) does not hold: on a
  fresh platform, with a catalog whose enumeration fails, the search for U+0041 returns
  null and the bit of U+0041 is set afterwards.
\<close>

theorem FindFontForChar_catalog_failure_counterexample:
  "\<not> bs_test (mCodepointsWithNoFonts gfxOS2Platform_new) 0x41
   \<and> \<not> NS_SUCCEEDED (fst (fc_GetFontList failing_env (language (GetStyle refFont)) []))
   \<and> fst (FindFontForChar failing_env 0x41 refFont gfxOS2Platform_new) = None
   \<and> bs_test (mCodepointsWithNoFonts
        (snd (FindFontForChar failing_env 0x41 refFont gfxOS2Platform_new))) 0x41"
  by (simp add: model_defs stub_defs)

text \<open>
  C2. The face lock taken by \<^verbatim>\<open>cairo_ft_scaled_font_lock_face\<close> is not released
  on the branch where the charmap maps the codepoint to glyph id 0: the no-charmap branch
  and the match branch call \<^verbatim>\<open>cairo_ft_scaled_font_unlock_face\<close>, this branch
  reaches the end of the loop body without it. On the stub catalog, the search for
  U+0041 tries Symbol (charmap present, glyph id 0) before it finds Arial: one lock stays
  held on Symbol's face, none on Arial's.
\<close>

theorem FindFontForChar_glyph_zero_leaves_face_locked:
  "locks_held (calls gfxOS2Platform_new) symbolFont = 0
   \<and> GetOrMakeFont stub_env ''Symbol'' refStyle = Some symbolFont
   \<and> cairo_ft_scaled_font_lock_face stub_env symbolFont = Some blank_face
   \<and> FT_Get_Char_Index blank_face 0x41 = 0
   \<and> fst (FindFontForChar stub_env 0x41 refFont gfxOS2Platform_new) = Some arialFont
   \<and> locks_held (calls (snd (FindFontForChar stub_env 0x41 refFont gfxOS2Platform_new)))
        symbolFont = 1
   \<and> locks_held (calls (snd (FindFontForChar stub_env 0x41 refFont gfxOS2Platform_new)))
        arialFont = 0"
  by (simp add: stub_run_eq) (simp add: model_defs stub_defs)

text \<open>
  C4 (as amended). After every \<^verbatim>\<open>UpdateFontList\<close> call, whatever the result of
  the refresh, the bit of every control codepoint (0x00 to 0x1F, 0x7F to 0x9F) is set, and
  \<^verbatim>\<open>FindFontForChar\<close> on such a codepoint returns null with no collaborator call:
  the platform and its call log are unchanged.
\<close>

theorem UpdateFontList_presets_controls:
  assumes "is_control aCh"
  shows "bs_test (mCodepointsWithNoFonts (snd (UpdateFontList env st))) aCh
    \<and> FindFontForChar env' aCh aFont (snd (UpdateFontList env st)) =
        (None, snd (UpdateFontList env st))"
  using assms by (simp add: UpdateFontList_cache FindFontForChar_cached_eq)

theorem UpdateFontList_presets_controls_witness:
  "is_control 0x9f
   \<and> bs_test (mCodepointsWithNoFonts (snd (UpdateFontList failing_env gfxOS2Platform_new))) 0x9f
   \<and> FindFontForChar stub_env 0x9f refFont (snd (UpdateFontList failing_env gfxOS2Platform_new)) =
       (None, snd (UpdateFontList failing_env gfxOS2Platform_new))"
proof -
  have h: "is_control 0x9f" by (simp add: is_control_def)
  show ?thesis
    using UpdateFontList_presets_controls
      [OF h, of failing_env gfxOS2Platform_new stub_env refFont] h
    by simp
qed

text \<open>
  C4 as the spec states it also covers the state right after initialisation. The
  constructor sets no range: on the freshly constructed platform the bit of U+000A is not
  set, and a search for it goes to the catalog.
\<close>

theorem constructor_presets_nothing_counterexample:
  "is_control 0x0A
   \<and> \<not> bs_test (mCodepointsWithNoFonts gfxOS2Platform_new) 0x0A
   \<and> calls (snd (FindFontForChar stub_env 0x0A refFont gfxOS2Platform_new)) \<noteq>
       calls gfxOS2Platform_new"
  by (simp add: is_control_def model_defs stub_defs)

text \<open>
  C5 (as amended). Every \<^verbatim>\<open>UpdateFontList\<close> call resets the set, whether the
  catalog refresh succeeds or fails: the call returns the result of the refresh, makes that
  one catalog call, and afterwards exactly the bits of the control codepoints are set.
\<close>

theorem UpdateFontList_resets_always:
  "fst (UpdateFontList env st) = fc_UpdateFontList env
   \<and> calls (snd (UpdateFontList env st)) = calls st @ [E_UpdateFontList]
   \<and> (\<forall>c. bs_test (mCodepointsWithNoFonts (snd (UpdateFontList env st))) c = is_control c)"
  by (simp add: UpdateFontList_cache) (simp add: UpdateFontList_def Let_def log_call_def)

theorem UpdateFontList_resets_always_witness:
  "fst (UpdateFontList failing_env miss_A_state) = NS_ERROR 1
   \<and> fst (UpdateFontList stub_env miss_A_state) = NS_OK
   \<and> \<not> bs_test (mCodepointsWithNoFonts (snd (UpdateFontList failing_env miss_A_state))) 0x41
   \<and> \<not> bs_test (mCodepointsWithNoFonts (snd (UpdateFontList stub_env miss_A_state))) 0x41
   \<and> bs_test (mCodepointsWithNoFonts (snd (UpdateFontList failing_env miss_A_state))) 0x7f"
  using UpdateFontList_resets_always [of failing_env miss_A_state]
    UpdateFontList_resets_always [of stub_env miss_A_state]
  by (simp add: is_control_def stub_defs)

text \<open>
  C5 as the spec states it (a failed refresh keeps the cached bits of non-control
  codepoints) does not hold: the set is cleared before the refresh is attempted. With the
  bit of U+0041 set, a failing refresh leaves it cleared.
\<close>

theorem UpdateFontList_failed_refresh_counterexample:
  "\<not> is_control 0x41
   \<and> bs_test (mCodepointsWithNoFonts miss_A_state) 0x41
   \<and> \<not> NS_SUCCEEDED (fst (UpdateFontList failing_env miss_A_state))
   \<and> \<not> bs_test (mCodepointsWithNoFonts (snd (UpdateFontList failing_env miss_A_state))) 0x41"
  by (simp add: miss_A_state_eq is_control_def) (simp add: model_defs stub_defs)

text \<open>
  C6. When the bit of the codepoint is set, \<^verbatim>\<open>FindFontForChar\<close> returns null and
  leaves the platform unchanged, call log included: no catalog, instance or face call.
  Consequently, once a call for a codepoint has returned null, a later call for the same
  codepoint, after any sequence of further searches and with any reference font and any
  collaborators, returns null with no call.
\<close>

theorem FindFontForChar_cached_returns_immediately:
  "(bs_test (mCodepointsWithNoFonts st) aCh \<longrightarrow> FindFontForChar env aCh aFont st = (None, st))
   \<and> (fst (FindFontForChar env aCh aFont st) = None \<longrightarrow>
        FindFontForChar env' aCh aFont'
            (FindFontForChar_seq cs (snd (FindFontForChar env aCh aFont st))) =
          (None, FindFontForChar_seq cs (snd (FindFontForChar env aCh aFont st))))"
proof (intro conjI impI)
  assume "bs_test (mCodepointsWithNoFonts st) aCh"
  then show "FindFontForChar env aCh aFont st = (None, st)"
    by (rule FindFontForChar_cached_eq)
next
  assume "fst (FindFontForChar env aCh aFont st) = None"
  then have "bs_test (mCodepointsWithNoFonts (snd (FindFontForChar env aCh aFont st))) aCh"
    by (rule FindFontForChar_None_cached)
  then have "bs_test (mCodepointsWithNoFonts
      (FindFontForChar_seq cs (snd (FindFontForChar env aCh aFont st)))) aCh"
    by (rule FindFontForChar_seq_keeps_bits)
  then show "FindFontForChar env' aCh aFont'
            (FindFontForChar_seq cs (snd (FindFontForChar env aCh aFont st))) =
          (None, FindFontForChar_seq cs (snd (FindFontForChar env aCh aFont st)))"
    by (rule FindFontForChar_cached_eq)
qed

theorem FindFontForChar_cached_returns_immediately_witness:
  "bs_test (mCodepointsWithNoFonts miss_A_state) 0x41
   \<and> FindFontForChar stub_env 0x41 refFont miss_A_state = (None, miss_A_state)
   \<and> fst (FindFontForChar generic_only_env 0x41 refFont gfxOS2Platform_new) = None
   \<and> FindFontForChar stub_env 0x41 arialFont
        (FindFontForChar_seq [(stub_env, 0x42, refFont)]
           (snd (FindFontForChar generic_only_env 0x41 refFont gfxOS2Platform_new))) =
      (None,
       FindFontForChar_seq [(stub_env, 0x42, refFont)]
         (snd (FindFontForChar generic_only_env 0x41 refFont gfxOS2Platform_new)))"
proof -
  have h1: "bs_test (mCodepointsWithNoFonts miss_A_state) 0x41"
    by (simp add: miss_A_state_eq bs_test_set)
  have h2: "fst (FindFontForChar generic_only_env 0x41 refFont gfxOS2Platform_new) = None"
    by (simp add: model_defs stub_defs)
  show ?thesis
    using FindFontForChar_cached_returns_immediately
        [of miss_A_state "0x41" stub_env refFont generic_only_env arialFont "[]"]
      FindFontForChar_cached_returns_immediately
        [of gfxOS2Platform_new "0x41" generic_only_env refFont stub_env arialFont
          "[(stub_env, 0x42, refFont)]"]
      h1 h2
    by simp
qed

text \<open>
  C7. The search never consults the first three entries of the catalog list. For a
  codepoint whose bit is not set: a list of fewer than four entries gives null, sets the
  bit and makes no call but the enumeration; the outcome does not change when the first
  three entries are replaced; and every instance lookup the call makes is for a name
  found from index 3 on.
\<close>

theorem FindFontForChar_skips_first_three:
  assumes "\<not> bs_test (mCodepointsWithNoFonts st) aCh"
    and "fc_GetFontList env (language (GetStyle aFont)) [] = (rv, fontList)"
  shows "(length fontList < 4 \<longrightarrow>
            FindFontForChar env aCh aFont st =
              (None, st\<lparr>mCodepointsWithNoFonts := bs_set (mCodepointsWithNoFonts st) aCh,
                        calls := calls st @ [E_GetFontList (language (GetStyle aFont)) []]\<rparr>))
    \<and> (\<forall>fontList'. drop 3 fontList' = drop 3 fontList \<longrightarrow>
          FindFontForChar (env\<lparr>fc_GetFontList := \<lambda>lang generic. (rv, fontList')\<rparr>) aCh aFont st =
          FindFontForChar env aCh aFont st)
    \<and> (\<exists>evs. calls (snd (FindFontForChar env aCh aFont st)) =
                calls st @ E_GetFontList (language (GetStyle aFont)) [] # evs \<and>
              (\<forall>name sty. E_GetOrMakeFont name sty \<in> set evs \<longrightarrow>
                 name \<in> set (drop 3 fontList)))"
proof (intro conjI impI allI)
  assume "length fontList < 4"
  then have "drop 3 fontList = []" by simp
  with assms show "FindFontForChar env aCh aFont st =
      (None, st\<lparr>mCodepointsWithNoFonts := bs_set (mCodepointsWithNoFonts st) aCh,
                calls := calls st @ [E_GetFontList (language (GetStyle aFont)) []]\<rparr>)"
    by (cases "NS_SUCCEEDED rv") (simp_all add: FindFontForChar_def GetFontList_def log_call_def)
next
  fix fontList' :: "string list"
  assume "drop 3 fontList' = drop 3 fontList"
  with assms(2) show
    "FindFontForChar (env\<lparr>fc_GetFontList := \<lambda>lang generic. (rv, fontList')\<rparr>) aCh aFont st =
     FindFontForChar env aCh aFont st"
    by (rule FindFontForChar_ignores_prefix)
next
  from FindFontForChar_calls [OF assms(1), of env aFont] assms(2)
  show "\<exists>evs. calls (snd (FindFontForChar env aCh aFont st)) =
                calls st @ E_GetFontList (language (GetStyle aFont)) [] # evs \<and>
              (\<forall>name sty. E_GetOrMakeFont name sty \<in> set evs \<longrightarrow>
                 name \<in> set (drop 3 fontList))"
    by simp
qed

theorem FindFontForChar_skips_first_three_witness:
  "\<not> bs_test (mCodepointsWithNoFonts gfxOS2Platform_new) 0x41
   \<and> fc_GetFontList generic_only_env (language (GetStyle refFont)) [] =
       (NS_OK, [''serif'', ''sans-serif'', ''monospace''])
   \<and> FindFontForChar generic_only_env 0x41 refFont gfxOS2Platform_new =
       (None, \<lparr>mCodepointsWithNoFonts = bs_set bs_empty 0x41, calls = [E_GetFontList ''en'' []]\<rparr>)"
proof -
  have h1: "\<not> bs_test (mCodepointsWithNoFonts gfxOS2Platform_new) 0x41"
    by (simp add: model_defs)
  have h2: "fc_GetFontList generic_only_env (language (GetStyle refFont)) [] =
       (NS_OK, [''serif'', ''sans-serif'', ''monospace''])"
    by (simp add: stub_defs)
  have l: "language (GetStyle refFont) = ''en''"
    by (simp add: stub_defs)
  show ?thesis
    using FindFontForChar_skips_first_three [OF h1 h2] h1 h2 l
    by (simp add: gfxOS2Platform_new_def)
qed

text \<open>
  C8. When \<^verbatim>\<open>FindFontForChar\<close> returns a font, it is the instance of the entry at
  some index \<open>i \<ge> 3\<close> of the catalog list that covers the codepoint (instance
  obtained, face locked, charmap present, nonzero glyph id), and no entry at an index from
  3 up to \<open>i\<close> covers it.
\<close>

theorem FindFontForChar_first_match:
  assumes "fst (FindFontForChar env aCh aFont st) = Some font"
    and "fc_GetFontList env (language (GetStyle aFont)) [] = (rv, fontList)"
  shows "\<exists>i. 3 \<le> i \<and> i < length fontList
      \<and> GetOrMakeFont env (fontList ! i) (GetStyle aFont) = Some font
      \<and> covers env aCh (GetStyle aFont) (fontList ! i)
      \<and> (\<forall>j. 3 \<le> j \<and> j < i \<longrightarrow> \<not> covers env aCh (GetStyle aFont) (fontList ! j))"
proof -
  let ?P = "covers env aCh (GetStyle aFont)"
  from FindFontForChar_Some_succeeded [OF assms(1)] assms(2)
  have pre: "\<not> bs_test (mCodepointsWithNoFonts st) aCh" "NS_SUCCEEDED rv"
    by simp_all
  from FindFontForChar_result [OF pre(1) assms(2) pre(2)] assms(1)
  obtain name where name: "find ?P (drop 3 fontList) = Some name"
    "GetOrMakeFont env name (GetStyle aFont) = Some font"
    by (auto split: option.splits)
  from name(1) obtain k where k: "k < length (drop 3 fontList)" "?P (drop 3 fontList ! k)"
    "name = drop 3 fontList ! k" "\<forall>j<k. \<not> ?P (drop 3 fontList ! j)"
    unfolding find_Some_iff by blast
  from k(1) have len: "3 + k < length fontList" by simp
  have nth: "drop 3 fontList ! m = fontList ! (3 + m)" if "m \<le> k" for m
    using that len by simp
  have earlier: "\<not> ?P (fontList ! j)" if "3 \<le> j \<and> j < 3 + k" for j
  proof -
    from that have "j - 3 < k" by arith
    with k(4) have "\<not> ?P (drop 3 fontList ! (j - 3))" by blast
    moreover have "drop 3 fontList ! (j - 3) = fontList ! (3 + (j - 3))"
      using \<open>j - 3 < k\<close> by (intro nth) simp
    ultimately show ?thesis using that by simp
  qed
  have "3 \<le> 3 + k \<and> 3 + k < length fontList
      \<and> GetOrMakeFont env (fontList ! (3 + k)) (GetStyle aFont) = Some font
      \<and> ?P (fontList ! (3 + k))
      \<and> (\<forall>j. 3 \<le> j \<and> j < 3 + k \<longrightarrow> \<not> ?P (fontList ! j))"
    using len name(2) k(2,3) nth [of k] earlier by simp
  then show ?thesis by blast
qed

theorem FindFontForChar_first_match_witness:
  "fst (FindFontForChar stub_env 0x41 refFont gfxOS2Platform_new) = Some arialFont
   \<and> fc_GetFontList stub_env (language (GetStyle refFont)) [] =
       (NS_OK, [''serif'', ''sans-serif'', ''monospace'', ''Symbol'', ''Arial''])
   \<and> (\<exists>i. 3 \<le> i \<and> i < 5
        \<and> GetOrMakeFont stub_env
            ([''serif'', ''sans-serif'', ''monospace'', ''Symbol'', ''Arial''] ! i) refStyle =
          Some arialFont)"
proof -
  have h1: "fst (FindFontForChar stub_env 0x41 refFont gfxOS2Platform_new) = Some arialFont"
    by (simp add: stub_run_eq)
  have h2: "fc_GetFontList stub_env (language (GetStyle refFont)) [] =
       (NS_OK, [''serif'', ''sans-serif'', ''monospace'', ''Symbol'', ''Arial''])"
    by (simp add: stub_defs)
  have l: "GetStyle refFont = refStyle"
    by (simp add: refFont_def)
  from FindFontForChar_first_match [OF h1 h2] obtain i where
    "3 \<le> i" "i < 5"
    "GetOrMakeFont stub_env
       ([''serif'', ''sans-serif'', ''monospace'', ''Symbol'', ''Arial''] ! i) refStyle =
     Some arialFont"
    unfolding l by auto
  with h1 h2 show ?thesis by blast
qed

text \<open>
  C9. No \<^verbatim>\<open>FindFontForChar\<close> call clears a bit: a bit that is set stays set
  after one call and after any sequence of calls. Only \<^verbatim>\<open>UpdateFontList\<close> clears
  bits: after it no bit of a non-control codepoint is set.
\<close>

theorem FindFontForChar_never_clears_a_bit:
  "(bs_test (mCodepointsWithNoFonts st) c \<longrightarrow>
      bs_test (mCodepointsWithNoFonts (snd (FindFontForChar env aCh aFont st))) c
      \<and> bs_test (mCodepointsWithNoFonts (FindFontForChar_seq cs st)) c)
   \<and> (\<not> is_control c \<longrightarrow>
        \<not> bs_test (mCodepointsWithNoFonts (snd (UpdateFontList env' st))) c)"
  by (simp add: FindFontForChar_keeps_bits FindFontForChar_seq_keeps_bits UpdateFontList_cache)

theorem FindFontForChar_never_clears_a_bit_witness:
  "bs_test (mCodepointsWithNoFonts miss_A_state) 0x41
   \<and> bs_test (mCodepointsWithNoFonts (snd (FindFontForChar stub_env 0x42 refFont miss_A_state))) 0x41
   \<and> bs_test (mCodepointsWithNoFonts
        (FindFontForChar_seq [(stub_env, 0x42, refFont), (failing_env, 0x43, arialFont)]
           miss_A_state)) 0x41
   \<and> \<not> is_control 0x41
   \<and> \<not> bs_test (mCodepointsWithNoFonts (snd (UpdateFontList stub_env miss_A_state))) 0x41"
proof -
  have h1: "bs_test (mCodepointsWithNoFonts miss_A_state) 0x41"
    by (simp add: miss_A_state_eq bs_test_set)
  have h2: "\<not> is_control 0x41"
    by (simp add: is_control_def)
  show ?thesis
    using FindFontForChar_never_clears_a_bit
        [of miss_A_state "0x41" stub_env "0x42" refFont
          "[(stub_env, 0x42, refFont), (failing_env, 0x43, arialFont)]" stub_env]
      h1 h2
    by simp
qed

text \<open>
  C10. When \<^verbatim>\<open>FindFontForChar\<close> returns a font, the set of codepoints with no
  fonts is exactly as before the call.
\<close>

theorem FindFontForChar_success_keeps_cache:
  assumes "fst (FindFontForChar env aCh aFont st) = Some font"
  shows "mCodepointsWithNoFonts (snd (FindFontForChar env aCh aFont st)) =
         mCodepointsWithNoFonts st"
  using assms by (simp add: FindFontForChar_cache_cases)

theorem FindFontForChar_success_keeps_cache_witness:
  "fst (FindFontForChar stub_env 0x41 refFont gfxOS2Platform_new) = Some arialFont
   \<and> mCodepointsWithNoFonts (snd (FindFontForChar stub_env 0x41 refFont gfxOS2Platform_new)) =
       mCodepointsWithNoFonts gfxOS2Platform_new"
proof -
  have h: "fst (FindFontForChar stub_env 0x41 refFont gfxOS2Platform_new) = Some arialFont"
    by (simp add: stub_run_eq)
  show ?thesis
    using FindFontForChar_success_keeps_cache [OF h] h by simp
qed

end
